theory Spec2Isabelle
  imports Main
begin

section \<open>Strings and character classes\<close>

text \<open>
  Python strings are modelled as \<open>string\<close>; a \<open>char\<close> stands for a code point
  below 256. The character classes are the ones Python's \<open>str.strip\<close> and the \<open>re\<close>
  module use for \<open>str\<close> patterns on that range.
\<close>

definition code :: "char \<Rightarrow> nat" where
  "code c = of_char c"

text \<open>\<open>str.isspace\<close> and the regex class \<open>\s\<close>: tab, line feed, vertical tab, form
  feed, carriage return, the separators 28 to 31, space, NEL (133) and the no-break
  space (160).\<close>

definition is_space :: "char \<Rightarrow> bool" where
  "is_space c = (let n = code c in
     (9 \<le> n \<and> n \<le> 13) \<or> (28 \<le> n \<and> n \<le> 32) \<or> n = 133 \<or> n = 160)"

definition is_ascii_letter :: "char \<Rightarrow> bool" where
  "is_ascii_letter c = (let n = code c in (65 \<le> n \<and> n \<le> 90) \<or> (97 \<le> n \<and> n \<le> 122))"

definition is_digit :: "char \<Rightarrow> bool" where
  "is_digit c = (let n = code c in 48 \<le> n \<and> n \<le> 57)"

text \<open>The regex class \<open>\w\<close>: the underscore and every alphanumeric code point; below
  256 these are the ASCII letters and digits, and the Latin-1 letters and numeric
  signs.\<close>

definition is_word :: "char \<Rightarrow> bool" where
  "is_word c = (let n = code c in
     is_ascii_letter c \<or> is_digit c \<or> n = 95 \<or>
     n = 170 \<or> n = 178 \<or> n = 179 \<or> n = 181 \<or> n = 185 \<or> n = 186 \<or>
     (188 \<le> n \<and> n \<le> 190) \<or> (192 \<le> n \<and> n \<le> 214) \<or>
     (216 \<le> n \<and> n \<le> 246) \<or> (248 \<le> n \<and> n \<le> 255))"

text \<open>\<open>str.upper\<close>, as far as the comparisons with the keywords need it: the letters
  \<open>a\<close> to \<open>z\<close> are mapped to \<open>A\<close> to \<open>Z\<close>. Upper-casing any other code point yields
  neither a space nor an ASCII letter, so it cannot take part in a match of
  \<open>' AND '\<close> or \<open>' OR '\<close> and is left as it is.\<close>

definition upper_char :: "char \<Rightarrow> char" where
  "upper_char c = (let n = code c in if 97 \<le> n \<and> n \<le> 122 then char_of (n - 32) else c)"

definition upper :: "string \<Rightarrow> string" where
  "upper s = map upper_char s"

text \<open>The slice \<open>s[a:b]\<close> for indices that are not negative: it is cut at the end of
  the string and empty when \<open>b \<le> a\<close>.\<close>

definition slice :: "string \<Rightarrow> nat \<Rightarrow> nat \<Rightarrow> string" where
  "slice s a b = take (b - a) (drop a s)"

text \<open>\<open>sub in s\<close> for strings.\<close>

fun contains :: "string \<Rightarrow> string \<Rightarrow> bool" where
  "contains sub [] = (sub = [])"
| "contains sub (c # cs) = (take (length sub) (c # cs) = sub \<or> contains sub cs)"

text \<open>\<open>str.strip()\<close>: whitespace removed at both ends.\<close>

definition strip :: "string \<Rightarrow> string" where
  "strip s = rev (dropWhile is_space (rev (dropWhile is_space s)))"

section \<open>The logical splitter\<close>

text \<open>The local variables of \<open>split_on_logical_ops\<close>.\<close>

record split_state =
  parts :: "string list"
  operators :: "string list"
  last_pos :: nat
  in_quotes :: bool

definition is_quote :: "char \<Rightarrow> bool" where
  "is_quote c = (c = CHR 0x22 \<or> c = CHR 0x27)"

text \<open>One iteration of \<open>for i, char in enumerate(expr)\<close>.\<close>

definition split_step :: "string \<Rightarrow> nat \<times> char \<Rightarrow> split_state \<Rightarrow> split_state" where
  "split_step expr ic st =
     (let i = fst ic; ch = snd ic;
          st1 = (if is_quote ch then st\<lparr>in_quotes := \<not> in_quotes st\<rparr> else st)
      in if \<not> in_quotes st1 \<and> i + 5 \<le> length expr then
           if upper (slice expr i (i + 5)) = '' AND '' then
             st1\<lparr>parts := parts st1 @ [slice expr (last_pos st1) i],
                 operators := operators st1 @ [''AND''],
                 last_pos := i + 5\<rparr>
           else if upper (slice expr i (i + 4)) = '' OR '' then
             st1\<lparr>parts := parts st1 @ [slice expr (last_pos st1) i],
                 operators := operators st1 @ [''OR''],
                 last_pos := i + 4\<rparr>
           else st1
         else st1)"

fun split_scan :: "string \<Rightarrow> (nat \<times> char) list \<Rightarrow> split_state \<Rightarrow> split_state" where
  "split_scan expr [] st = st"
| "split_scan expr (ic # rest) st = split_scan expr rest (split_step expr ic st)"

definition split_init :: split_state where
  "split_init = \<lparr>parts = [], operators = [], last_pos = 0, in_quotes = False\<rparr>"

definition split_on_logical_ops :: "string \<Rightarrow> string list \<times> string list" where
  "split_on_logical_ops expr =
     (let st = split_scan expr (enumerate 0 expr) split_init
      in (parts st @ [drop (last_pos st) expr], operators st))"

section \<open>Values\<close>

text \<open>
  The object under test is a JSON-like Python value; objects that hold floating point
  numbers are left out.
\<close>

datatype pyval =
    PNone
  | PBool bool
  | PInt int
  | PStr string
  | PList "pyval list"
  | PDict "(string \<times> pyval) list"

text \<open>The values of value texts that the embedding interprets: \<open>None\<close>, booleans,
  integers and strings.\<close>

datatype literal = LNone | LBool bool | LInt int | LStr string

text \<open>What the evaluation of a value text yields: a literal as above, or any other
  Python value (a float, a list, a tuple and so on), of a type \<open>'x\<close> that the embedding
  does not look into.\<close>

datatype 'x evaluated = Known literal | Opaque 'x

text \<open>
  The exceptions of the program. \<open>InvalidExpressionFormat\<close> and \<open>UnsupportedOperator\<close>
  are the two \<open>ValueError\<close>s of \<open>evaluate_comparison\<close>, kept apart by their message;
  \<open>TypeError\<close> is what Python's ordering operators raise on operands they do not
  order; \<open>IndexError\<close> is a list index out of range.
\<close>

datatype error =
    InvalidExpressionFormat string
  | UnsupportedOperator string
  | TypeError
  | IndexError

section \<open>The value expression\<close>

text \<open>
  \<open>eval(value, {"__builtins__": {}}, {})\<close> is Python's own evaluator, called with no
  builtins, and the comparison operators are Python's own. Neither is code of the
  program, so what they do beyond the part written out here is a parameter of the
  embedding, and every function of the program that depends on them takes it:
  \<^item> \<open>eval_beyond v\<close> is the outcome of \<open>eval\<close> on a value text \<open>v\<close> outside the fragment
    below: \<open>None\<close> when it raises, its value otherwise;
  \<^item> \<open>equal_beyond fv x\<close> is \<open>fv == x\<close> for a field value and an opaque value; \<open>==\<close> and
    \<open>!=\<close> do not raise on the values of Python, and \<open>!=\<close> is the negation of \<open>==\<close>;
  \<^item> \<open>order_beyond op fv x\<close> is the outcome of the ordering operator \<open>op\<close> on them: a
    boolean, or \<open>None\<close> for \<open>TypeError\<close>.
  A property stated for every such parameter holds for Python, whatever it does there.
\<close>

record 'x python =
  eval_beyond :: "string \<Rightarrow> 'x evaluated option"
  equal_beyond :: "pyval \<Rightarrow> 'x \<Rightarrow> bool"
  order_beyond :: "string \<Rightarrow> pyval \<Rightarrow> 'x \<Rightarrow> bool option"

text \<open>
  The fragment of the expression syntax that is written out; \<open>eval_fragment\<close> says so
  when a text lies outside it:
  \<^item> \<open>None\<close>, \<open>True\<close>, \<open>False\<close>;
  \<^item> a decimal integer literal of digits only, with an optional \<open>-\<close> directly before it,
    and the sum \<open>a+b\<close> of two such literals without sign; a literal with a leading zero
    that is not zero is a syntax error; literals of more than 4300 digits are left out,
    since Python versions differ on them;
  \<^item> a string literal in double or single quotes whose content is printable ASCII
    without that quote and without backslash;
  \<^item> an ASCII identifier: with no builtins every name is undefined (\<open>NameError\<close>) and
    every keyword alone is a syntax error, except \<open>__debug__\<close> and \<open>__builtins__\<close>, which
    have values and are left out;
  \<^item> a text that starts with \<open>=\<close>, which no expression does (a syntax error).
\<close>

datatype eval_result = Evaluated literal | EvalRaises | EvalBeyond

definition all_digits :: "string \<Rightarrow> bool" where
  "all_digits d = (d \<noteq> [] \<and> list_all is_digit d)"

definition valid_decimal :: "string \<Rightarrow> bool" where
  "valid_decimal d = (take 1 d \<noteq> ''0'' \<or> list_all (\<lambda>c. c = CHR ''0'') d)"

definition digits_value :: "string \<Rightarrow> int" where
  "digits_value d = foldl (\<lambda>a c. 10 * a + int (code c - 48)) 0 d"

definition max_digits :: nat where
  "max_digits = 4300"

definition is_identifier :: "string \<Rightarrow> bool" where
  "is_identifier v =
     (case v of [] \<Rightarrow> False
      | c # cs \<Rightarrow> (is_ascii_letter c \<or> c = CHR ''_'') \<and>
                 list_all (\<lambda>x. is_ascii_letter x \<or> is_digit x \<or> x = CHR ''_'') cs)"

definition is_plain_quoted :: "string \<Rightarrow> bool" where
  "is_plain_quoted v =
     (2 \<le> length v \<and> is_quote (hd v) \<and> last v = hd v \<and>
      list_all (\<lambda>c. 32 \<le> code c \<and> code c \<le> 126 \<and> c \<noteq> hd v \<and> c \<noteq> CHR 0x5C)
        (butlast (tl v)))"

definition eval_fragment :: "string \<Rightarrow> eval_result" where
  "eval_fragment v =
     (let a = takeWhile (\<lambda>c. c \<noteq> CHR ''+'') v;
          b = drop 1 (dropWhile (\<lambda>c. c \<noteq> CHR ''+'') v)
      in
      if v = ''None'' then Evaluated LNone
      else if v = ''True'' then Evaluated (LBool True)
      else if v = ''False'' then Evaluated (LBool False)
      else if all_digits v then
        (if max_digits < length v then EvalBeyond
         else if valid_decimal v then Evaluated (LInt (digits_value v))
         else EvalRaises)
      else if take 1 v = ''-'' \<and> all_digits (drop 1 v) then
        (if max_digits < length (drop 1 v) then EvalBeyond
         else if valid_decimal (drop 1 v) then Evaluated (LInt (- digits_value (drop 1 v)))
         else EvalRaises)
      else if all_digits a \<and> all_digits b then
        (if max_digits < length a \<or> max_digits < length b then EvalBeyond
         else if valid_decimal a \<and> valid_decimal b
           then Evaluated (LInt (digits_value a + digits_value b))
         else EvalRaises)
      else if is_plain_quoted v then Evaluated (LStr (butlast (tl v)))
      else if is_identifier v then
        (if v = ''__debug__'' \<or> v = ''__builtins__'' then EvalBeyond else EvalRaises)
      else if take 1 v = ''='' then EvalRaises
      else EvalBeyond)"

text \<open>\<open>eval\<close> on any text: \<open>None\<close> when it raises.\<close>

definition py_eval :: "'x python \<Rightarrow> string \<Rightarrow> 'x evaluated option" where
  "py_eval py v =
     (case eval_fragment v of
        Evaluated x \<Rightarrow> Some (Known x)
      | EvalRaises \<Rightarrow> None
      | EvalBeyond \<Rightarrow> eval_beyond py v)"

text \<open>The \<open>try\<close>/\<open>except\<close> around \<open>eval\<close>: the text itself is kept, as a string, when
  the evaluation raises. There is always a value.\<close>

definition evaluated_value :: "'x python \<Rightarrow> string \<Rightarrow> 'x evaluated" where
  "evaluated_value py v =
     (case py_eval py v of
        Some x \<Rightarrow> x
      | None \<Rightarrow> Known (LStr v))"

section \<open>The field resolver\<close>

fun split_on :: "char \<Rightarrow> string \<Rightarrow> string list" where
  "split_on d [] = [[]]"
| "split_on d (c # cs) =
     (if c = d then [] # split_on d cs
      else (case split_on d cs of [] \<Rightarrow> [[c]] | w # ws \<Rightarrow> (c # w) # ws))"

fun deep_get :: "pyval \<Rightarrow> string list \<Rightarrow> pyval" where
  "deep_get v [] = v"
| "deep_get (PDict d) (k # ks) =
     (case map_of d k of None \<Rightarrow> PNone | Some x \<Rightarrow> deep_get x ks)"
| "deep_get v (k # ks) = PNone"

text \<open>
  Modelled from the spec: \<open>pydash.get\<close>, the deep accessor of an external library, is
  not part of the repository. By sections 4.3 and 6 of the specification it descends
  the dotted path segment by segment through mappings and returns the value found, or
  the absent value when a key is missing or the current value is no mapping. The
  program calls it without a default, so the absent value is \<open>None\<close>.
\<close>

definition pydash_get :: "pyval \<Rightarrow> string \<Rightarrow> pyval" where
  "pydash_get obj field = deep_get obj (split_on CHR ''.'' field)"

section \<open>Comparison\<close>

text \<open>Python's numbers among these values: \<open>bool\<close> is a subtype of \<open>int\<close>, with
  \<open>True\<close> as 1 and \<open>False\<close> as 0.\<close>

fun num_of :: "pyval \<Rightarrow> int option" where
  "num_of (PBool b) = Some (if b then 1 else 0)"
| "num_of (PInt i) = Some i"
| "num_of v = None"

fun lit_num :: "literal \<Rightarrow> int option" where
  "lit_num (LBool b) = Some (if b then 1 else 0)"
| "lit_num (LInt i) = Some i"
| "lit_num l = None"

text \<open>\<open>==\<close> never raises: values of unrelated types are unequal.\<close>

fun py_eq :: "pyval \<Rightarrow> literal \<Rightarrow> bool" where
  "py_eq PNone LNone = True"
| "py_eq (PStr a) (LStr b) = (a = b)"
| "py_eq v l = (case (num_of v, lit_num l) of (Some x, Some y) \<Rightarrow> x = y | _ \<Rightarrow> False)"

text \<open>Strings are ordered lexicographically by code point.\<close>

fun str_lt :: "string \<Rightarrow> string \<Rightarrow> bool" where
  "str_lt [] [] = False"
| "str_lt [] (y # ys) = True"
| "str_lt (x # xs) [] = False"
| "str_lt (x # xs) (y # ys) = (code x < code y \<or> (x = y \<and> str_lt xs ys))"

text \<open>An ordering operator, given by its meaning on numbers and on strings; any other
  pair of operands raises \<open>TypeError\<close>.\<close>

fun py_order ::
  "(int \<Rightarrow> int \<Rightarrow> bool) \<Rightarrow> (string \<Rightarrow> string \<Rightarrow> bool) \<Rightarrow> pyval \<Rightarrow> literal \<Rightarrow> error + bool"
where
  "py_order num str (PStr a) (LStr b) = Inr (str a b)"
| "py_order num str v l =
     (case (num_of v, lit_num l) of (Some x, Some y) \<Rightarrow> Inr (num x y) | _ \<Rightarrow> Inl TypeError)"

definition py_gt :: "pyval \<Rightarrow> literal \<Rightarrow> error + bool" where
  "py_gt = py_order (\<lambda>x y. x > y) (\<lambda>a b. str_lt b a)"

definition py_lt :: "pyval \<Rightarrow> literal \<Rightarrow> error + bool" where
  "py_lt = py_order (\<lambda>x y. x < y) (\<lambda>a b. str_lt a b)"

definition py_ge :: "pyval \<Rightarrow> literal \<Rightarrow> error + bool" where
  "py_ge = py_order (\<lambda>x y. x \<ge> y) (\<lambda>a b. \<not> str_lt a b)"

definition py_le :: "pyval \<Rightarrow> literal \<Rightarrow> error + bool" where
  "py_le = py_order (\<lambda>x y. x \<le> y) (\<lambda>a b. \<not> str_lt b a)"

text \<open>The \<open>if\<close>/\<open>elif\<close> chain of \<open>evaluate_comparison\<close> on the operator text.\<close>

definition apply_operator :: "string \<Rightarrow> pyval \<Rightarrow> literal \<Rightarrow> error + bool" where
  "apply_operator operator field_value ev =
     (if operator = ''=='' then Inr (py_eq field_value ev)
      else if operator = ''!='' then Inr (\<not> py_eq field_value ev)
      else if operator = ''>'' then py_gt field_value ev
      else if operator = ''<'' then py_lt field_value ev
      else if operator = ''>='' then py_ge field_value ev
      else if operator = ''<='' then py_le field_value ev
      else Inl (UnsupportedOperator operator))"

text \<open>The same chain when the evaluated value is opaque.\<close>

definition apply_operator_beyond ::
  "'x python \<Rightarrow> string \<Rightarrow> pyval \<Rightarrow> 'x \<Rightarrow> error + bool" where
  "apply_operator_beyond py operator field_value x =
     (if operator = ''=='' then Inr (equal_beyond py field_value x)
      else if operator = ''!='' then Inr (\<not> equal_beyond py field_value x)
      else if operator = ''>'' \<or> operator = ''<'' \<or> operator = ''>='' \<or> operator = ''<=''
      then (case order_beyond py operator field_value x of
              None \<Rightarrow> Inl TypeError
            | Some b \<Rightarrow> Inr b)
      else Inl (UnsupportedOperator operator))"

definition compare ::
  "'x python \<Rightarrow> string \<Rightarrow> pyval \<Rightarrow> 'x evaluated \<Rightarrow> error + bool" where
  "compare py operator field_value ev =
     (case ev of
        Known l \<Rightarrow> apply_operator operator field_value l
      | Opaque x \<Rightarrow> apply_operator_beyond py operator field_value x)"

section \<open>The clause pattern\<close>

text \<open>
  The pattern \<^verbatim>\<open>\$\.([\w\.]+)\s*(==|!=|>|<|>=|<=)\s*(.+)\<close> is matched by \<open>re.match\<close> at
  the start of the stripped clause. The scanner below follows the regex engine:
  \<^item> \<open>[\w\.]+\<close> and the first \<open>\s*\<close> are greedy, and giving back a character never
    helps, since what follows would have to start with a word character, a dot or a
    blank, and neither an operator nor a blank-free continuation does;
  \<^item> the alternation tries its six branches in the order written, and takes the first
    one after which the rest of the pattern matches;
  \<^item> the second \<open>\s*\<close> is greedy, and \<open>.+\<close> takes at least one and then every character
    up to the first line feed. In a stripped clause a non-empty rest does not end in a
    blank, so after the blanks there is a character that is no line feed, or nothing.
\<close>

definition is_field_char :: "char \<Rightarrow> bool" where
  "is_field_char c = (is_word c \<or> c = CHR ''.'')"

definition alternatives :: "string list" where
  "alternatives = [''=='', ''!='', ''>'', ''<'', ''>='', ''<='']"

definition match_value :: "string \<Rightarrow> string option" where
  "match_value r =
     (let v = takeWhile (\<lambda>c. c \<noteq> CHR 0x0A) (dropWhile is_space r)
      in if v = [] then None else Some v)"

fun match_operator :: "string list \<Rightarrow> string \<Rightarrow> (string \<times> string) option" where
  "match_operator [] r = None"
| "match_operator (op # ops) r =
     (if take (length op) r = op then
        (case match_value (drop (length op) r) of
           Some v \<Rightarrow> Some (op, v)
         | None \<Rightarrow> match_operator ops r)
      else match_operator ops r)"

definition match_pattern :: "string \<Rightarrow> (string \<times> string \<times> string) option" where
  "match_pattern s =
     (let r = drop 2 s; field = takeWhile is_field_char r
      in if take 2 s = ''$.'' then
           if field = [] then None
           else (case match_operator alternatives
                        (dropWhile is_space (dropWhile is_field_char r)) of
                   None \<Rightarrow> None
                 | Some (op, v) \<Rightarrow> Some (field, op, v))
         else None)"

section \<open>Evaluating one comparison\<close>

definition evaluate_comparison :: "'x python \<Rightarrow> pyval \<Rightarrow> string \<Rightarrow> error + bool" where
  "evaluate_comparison py obj expr =
     (case match_pattern (strip expr) of
        None \<Rightarrow> Inl (InvalidExpressionFormat expr)
      | Some (field, operator, v) \<Rightarrow>
          compare py operator (pydash_get obj field) (evaluated_value py v))"

section \<open>The expression\<close>

record Expr =
  args :: string

text \<open>\<open>xs[i]\<close>, which raises when the index is out of range.\<close>

definition index :: "'a list \<Rightarrow> nat \<Rightarrow> error + 'a" where
  "index xs i = (if i < length xs then Inr (xs ! i) else Inl IndexError)"

definition evaluate_part :: "'x python \<Rightarrow> pyval \<Rightarrow> string list \<Rightarrow> nat \<Rightarrow> error + bool" where
  "evaluate_part py obj ps i =
     (case index ps i of Inl e \<Rightarrow> Inl e | Inr p \<Rightarrow> evaluate_comparison py obj p)"

text \<open>
  The loop \<open>for i, op in enumerate(operators)\<close> of \<open>test\<close>. \<open>result and x\<close> evaluates \<open>x\<close>
  only when \<open>result\<close> is true, \<open>result or x\<close> only when it is false. After \<open>AND\<close> a false
  result leaves the loop; after \<open>OR\<close> the \<open>continue\<close> is the last statement of the body.
\<close>

fun apply_logical_ops ::
  "'x python \<Rightarrow> pyval \<Rightarrow> string list \<Rightarrow> string list \<Rightarrow> (nat \<times> string) list \<Rightarrow> bool \<Rightarrow> error + bool"
where
  "apply_logical_ops py obj ps ops [] result = Inr result"
| "apply_logical_ops py obj ps ops ((i, op) # rest) result =
     (if op = ''AND'' then
        (case (if result then evaluate_part py obj ps (i + 1) else Inr result) of
           Inl e \<Rightarrow> Inl e
         | Inr result' \<Rightarrow>
             if \<not> result' then Inr result'
             else apply_logical_ops py obj ps ops rest result')
      else if op = ''OR'' then
        (case (if result then Inr result else evaluate_part py obj ps (i + 1)) of
           Inl e \<Rightarrow> Inl e
         | Inr result' \<Rightarrow>
             if result' \<and> (i + 1 < length ops \<and> ops ! (i + 1) = ''OR'')
             then apply_logical_ops py obj ps ops rest result'
             else apply_logical_ops py obj ps ops rest result')
      else apply_logical_ops py obj ps ops rest result)"

definition test :: "'x python \<Rightarrow> Expr \<Rightarrow> pyval \<Rightarrow> error + bool" where
  "test py self obj =
     (if \<not> contains '' AND '' (upper (args self)) \<and> \<not> contains '' OR '' (upper (args self))
      then evaluate_comparison py obj (args self)
      else
        (let po = split_on_logical_ops (args self); ps = fst po; ops = snd po
         in case evaluate_part py obj ps 0 of
              Inl e \<Rightarrow> Inl e
            | Inr result \<Rightarrow> apply_logical_ops py obj ps ops (enumerate 0 ops) result))"

text \<open>The object of the notebook's tests.\<close>

definition test_object_extended :: pyval where
  "test_object_extended = PDict
     [(''foo'', PStr ''some value''),
      (''nested'', PDict [(''field'', PInt 123)]),
      (''active'', PBool True),
      (''count'', PInt 10),
      (''role'', PStr ''user''),
      (''permissions'', PList [PStr ''read'', PStr ''write''])]"


section \<open>Vocabulary of the properties\<close>

subsection \<open>Keywords and quotes\<close>

text \<open>A connector keyword, in any case, starts at position \<open>i\<close>.\<close>

definition keyword_at :: "string \<Rightarrow> nat \<Rightarrow> bool" where
  "keyword_at s i =
     (upper (slice s i (i + 5)) = '' AND '' \<or> upper (slice s i (i + 4)) = '' OR '')"

text \<open>Position \<open>i\<close> lies between an opening and a closing quote, as the single flag of
  the splitter counts them: the quote characters up to and including position \<open>i\<close>, of
  either kind, are odd in number.\<close>

definition inside_quotes :: "string \<Rightarrow> nat \<Rightarrow> bool" where
  "inside_quotes s i = odd (length (filter is_quote (take (Suc i) s)))"

text \<open>The positions where the splitter cuts, and the connector it records there.\<close>

definition cut_at :: "string \<Rightarrow> nat \<Rightarrow> bool" where
  "cut_at s i = (\<not> inside_quotes s i \<and> i + 5 \<le> length s \<and> keyword_at s i)"

definition connector_at :: "string \<Rightarrow> nat \<Rightarrow> string" where
  "connector_at s i = (if upper (slice s i (i + 5)) = '' AND '' then ''AND'' else ''OR'')"

subsection \<open>The fold without the condition after \<open>OR\<close>\<close>

text \<open>The variant of the loop of \<open>test\<close> whose \<open>OR\<close> case is only
  \<open>result = result or evaluate_comparison(parts[i+1])\<close>; the \<open>AND\<close> case is the same.\<close>

fun apply_logical_ops_plain ::
  "'x python \<Rightarrow> pyval \<Rightarrow> string list \<Rightarrow> (nat \<times> string) list \<Rightarrow> bool \<Rightarrow> error + bool"
where
  "apply_logical_ops_plain py obj ps [] result = Inr result"
| "apply_logical_ops_plain py obj ps ((i, op) # rest) result =
     (if op = ''AND'' then
        (case (if result then evaluate_part py obj ps (i + 1) else Inr result) of
           Inl e \<Rightarrow> Inl e
         | Inr result' \<Rightarrow>
             if \<not> result' then Inr result'
             else apply_logical_ops_plain py obj ps rest result')
      else if op = ''OR'' then
        (case (if result then Inr result else evaluate_part py obj ps (i + 1)) of
           Inl e \<Rightarrow> Inl e
         | Inr result' \<Rightarrow> apply_logical_ops_plain py obj ps rest result')
      else apply_logical_ops_plain py obj ps rest result)"

definition test_plain :: "'x python \<Rightarrow> Expr \<Rightarrow> pyval \<Rightarrow> error + bool" where
  "test_plain py self obj =
     (if \<not> contains '' AND '' (upper (args self)) \<and> \<not> contains '' OR '' (upper (args self))
      then evaluate_comparison py obj (args self)
      else
        (let po = split_on_logical_ops (args self); ps = fst po; ops = snd po
         in case evaluate_part py obj ps 0 of
              Inl e \<Rightarrow> Inl e
            | Inr result \<Rightarrow> apply_logical_ops_plain py obj ps (enumerate 0 ops) result))"

subsection \<open>The clauses that an evaluation reaches\<close>





subsection \<open>The grammar of a clause\<close>





subsection \<open>An interpreter to name\<close>

text \<open>
  Where a statement has to name one interpreter, it names the one that raises on every
  text outside the fragment. The texts of those statements lie inside the fragment,
  where no interpreter is asked: each of them holds for every interpreter.
\<close>

definition fragment_only :: "unit python" where
  "fragment_only =
     \<lparr>eval_beyond = (\<lambda>v. None),
      equal_beyond = (\<lambda>fv x. False),
      order_beyond = (\<lambda>op fv x. None)\<rparr>"

subsection \<open>Kinds of operands\<close>







section \<open>The splitter: shape of the result\<close>

lemma split_step_shape:
  assumes "length (parts st) = length (operators st)"
    and "operators st = [] \<longrightarrow> last_pos st = 0"
  shows "length (parts (split_step e ic st)) = length (operators (split_step e ic st))"
    and "operators (split_step e ic st) = [] \<longrightarrow> last_pos (split_step e ic st) = 0"
  using assms by (auto simp: split_step_def Let_def)

lemma split_scan_shape:
  assumes "length (parts st) = length (operators st)"
    and "operators st = [] \<longrightarrow> last_pos st = 0"
  shows "length (parts (split_scan e xs st)) = length (operators (split_scan e xs st))
       \<and> (operators (split_scan e xs st) = [] \<longrightarrow> last_pos (split_scan e xs st) = 0)"
  using assms
proof (induction xs arbitrary: st)
  case Nil
  then show ?case by simp
next
  case (Cons ic xs)
  show ?case
    using Cons.IH [OF split_step_shape [OF Cons.prems]] by simp
qed

lemma split_on_logical_ops_inv:
  "fst (split_on_logical_ops s) \<noteq> [] \<and>
   length (snd (split_on_logical_ops s)) = length (fst (split_on_logical_ops s)) - 1 \<and>
   (snd (split_on_logical_ops s) = [] \<longrightarrow> fst (split_on_logical_ops s) = [s])"
proof -
  let ?st = "split_scan s (enumerate 0 s) split_init"
  have inv: "length (parts ?st) = length (operators ?st)
       \<and> (operators ?st = [] \<longrightarrow> last_pos ?st = 0)"
    by (rule split_scan_shape) (simp_all add: split_init_def)
  show ?thesis
    using inv by (auto simp: split_on_logical_ops_def Let_def)
qed

text \<open>
  Claim C8. For every input string the splitter returns at least one clause and exactly
  one connector fewer than clauses; when it records no connector, the whole string is
  the single clause.
\<close>

theorem split_on_logical_ops_shape:
  "fst (split_on_logical_ops s) \<noteq> [] \<and>
   length (snd (split_on_logical_ops s)) = length (fst (split_on_logical_ops s)) - 1 \<and>
   (snd (split_on_logical_ops s) = [] \<longrightarrow> fst (split_on_logical_ops s) = [s])"
  by (rule split_on_logical_ops_inv)

theorem split_on_logical_ops_shape_witness:
  "snd (split_on_logical_ops ''$.a == 1'') = [] \<and>
   fst (split_on_logical_ops ''$.a == 1'') = [''$.a == 1'']"
proof -
  have h: "snd (split_on_logical_ops ''$.a == 1'') = []" by code_simp
  show ?thesis using h split_on_logical_ops_shape [of "''$.a == 1''"] by blast
qed

section \<open>The splitter: keywords inside quotes\<close>

lemma list_all_upt: "list_all P [0..<n] = (\<forall>i<n. P i)"
  by (auto simp: list_all_iff)

lemma split_step_operators:
  assumes "in_quotes st = odd (length (filter is_quote pre))"
    and "s = pre @ c # cs"
  shows "operators (split_step s (length pre, c) st) =
           operators st @ map (connector_at s) (filter (cut_at s) [length pre])"
    and "in_quotes (split_step s (length pre, c) st) = odd (length (filter is_quote (pre @ [c])))"
  using assms
  by (auto simp: split_step_def Let_def cut_at_def connector_at_def keyword_at_def
      inside_quotes_def)

lemma split_scan_operators:
  assumes "in_quotes st = odd (length (filter is_quote pre))"
    and "s = pre @ xs"
  shows "operators (split_scan s (enumerate (length pre) xs) st) =
           operators st @ map (connector_at s)
             (filter (cut_at s) [length pre ..< length pre + length xs])"
  using assms
proof (induction xs arbitrary: pre st)
  case Nil
  then show ?case by simp
next
  case (Cons c cs)
  let ?st' = "split_step s (length pre, c) st"
  have s: "s = (pre @ [c]) @ cs" using Cons.prems by simp
  have q: "in_quotes ?st' = odd (length (filter is_quote (pre @ [c])))"
    using split_step_operators(2) [OF Cons.prems] .
  have ops: "operators ?st' = operators st @ map (connector_at s) (filter (cut_at s) [length pre])"
    using split_step_operators(1) [OF Cons.prems] .
  have ih: "operators (split_scan s (enumerate (length (pre @ [c])) cs) ?st') =
          operators ?st' @ map (connector_at s)
            (filter (cut_at s) [length (pre @ [c]) ..< length (pre @ [c]) + length cs])"
    by (rule Cons.IH [OF q s])
  have step: "split_scan s (enumerate (length pre) (c # cs)) st =
      split_scan s (enumerate (length (pre @ [c])) cs) ?st'"
    by simp
  have rng: "[length pre ..< length pre + length (c # cs)] =
      [length pre] @ [length (pre @ [c]) ..< length (pre @ [c]) + length cs]"
    by (subst upt_conv_Cons) simp_all
  show ?case
    unfolding step rng ih ops by (simp only: filter_append map_append append_assoc)
qed

text \<open>
  Claim C7, as it fails: inside a literal in double quotes an apostrophe switches the
  flag off, and the keyword that follows cuts the literal in two.
\<close>

theorem apostrophe_closes_double_quote:
  \<open>split_on_logical_ops ''$.a == "it's AND b"'' = ([''$.a == "it's'', ''b"''], [''AND''])\<close>
  by code_simp

text \<open>
  Claim C7, amended. Quotes are counted as the single flag of the splitter counts them:
  each quote character, of either kind, opens or closes in turn. The connectors that
  the splitter records are then exactly those of the keyword positions outside quotes,
  so a keyword between an opening and a closing quote contributes none; and in a
  string whose keywords all lie inside quotes nothing is split: the whole string is the
  single clause.
\<close>

theorem quoted_keywords_not_split:
  "snd (split_on_logical_ops s) = map (connector_at s) (filter (cut_at s) [0..<length s]) \<and>
   ((\<forall>i<length s. keyword_at s i \<longrightarrow> inside_quotes s i) \<longrightarrow>
      split_on_logical_ops s = ([s], []))"
proof -
  have ops: "snd (split_on_logical_ops s) =
      map (connector_at s) (filter (cut_at s) [0..<length s])"
    using split_scan_operators [of split_init "[]" s s]
    by (simp add: split_on_logical_ops_def Let_def split_init_def)
  have "split_on_logical_ops s = ([s], [])"
    if h: "\<forall>i<length s. keyword_at s i \<longrightarrow> inside_quotes s i"
  proof -
    have "filter (cut_at s) [0..<length s] = []"
      using h by (auto simp: filter_empty_conv cut_at_def)
    then have "snd (split_on_logical_ops s) = []"
      using ops by simp
    then have "fst (split_on_logical_ops s) = [s]"
      using split_on_logical_ops_inv by blast
    then show ?thesis
      using \<open>snd (split_on_logical_ops s) = []\<close> by (simp add: prod_eq_iff)
  qed
  then show ?thesis using ops by blast
qed

theorem quoted_keywords_not_split_witness:
  \<open>keyword_at ''$.a == "x AND y"'' 9 \<and> inside_quotes ''$.a == "x AND y"'' 9 \<and>
   split_on_logical_ops ''$.a == "x AND y"'' = ([''$.a == "x AND y"''], [])\<close>
proof -
  let ?s = \<open>''$.a == "x AND y"''\<close>
  have "list_all (\<lambda>i. keyword_at ?s i \<longrightarrow> inside_quotes ?s i) [0..<length ?s]"
    by code_simp
  then have h: "\<forall>i<length ?s. keyword_at ?s i \<longrightarrow> inside_quotes ?s i"
    by (rule list_all_upt [THEN iffD1])
  have k: "keyword_at ?s 9" "inside_quotes ?s 9"
    by code_simp+
  show ?thesis
    using h k quoted_keywords_not_split [of ?s] by blast
qed

section \<open>The fold over the connectors\<close>

lemma apply_logical_ops_plain_eq:
  "apply_logical_ops py obj ps ops xs result = apply_logical_ops_plain py obj ps xs result"
  by (induction xs arbitrary: result) (auto split: sum.splits)

text \<open>
  Claim C10. The condition after \<open>OR\<close> (continue when the result is true and the next
  connector is \<open>OR\<close>) has no effect: \<open>test\<close> returns the same boolean and raises the
  same error as the variant whose \<open>OR\<close> case is only the short-circuit \<open>or\<close>.
\<close>

theorem or_condition_is_void:
  "test py self obj = test_plain py self obj"
  unfolding test_def test_plain_def Let_def apply_logical_ops_plain_eq ..

section \<open>Malformed clauses\<close>









subsection \<open>The pattern accepts the grammar\<close>









subsection \<open>The error of a malformed clause\<close>







text \<open>A value text outside the fragment does not end the evaluation: when \<open>10.0\<close>
  evaluates to a value that equals the integer 10, the clause after \<open>AND\<close> is reached.\<close>

lemma value_beyond_fragment_goes_on:
  assumes "eval_beyond py ''10.0'' = Some (Opaque x)" and "equal_beyond py (PInt 10) x"
  shows "test py \<lparr>args = ''$.count == 10.0 AND garbage''\<rparr> test_object_extended =
     Inl (InvalidExpressionFormat ''garbage'')"
proof -
  have c: "contains '' AND '' (upper ''$.count == 10.0 AND garbage'')"
    by code_simp
  have sp: "split_on_logical_ops ''$.count == 10.0 AND garbage'' =
      ([''$.count == 10.0'', ''garbage''], [''AND''])"
    by code_simp
  have m1: "match_pattern (strip ''$.count == 10.0'') = Some (''count'', ''=='', ''10.0'')"
    by code_simp
  have m2: "match_pattern (strip ''garbage'') = None"
    by code_simp
  have ef: "eval_fragment ''10.0'' = EvalBeyond"
    by code_simp
  have g: "pydash_get test_object_extended ''count'' = PInt 10"
    by code_simp
  have e1: "evaluate_comparison py test_object_extended ''$.count == 10.0'' = Inr True"
    using assms by (simp add: evaluate_comparison_def m1 evaluated_value_def py_eval_def ef g
        compare_def apply_operator_beyond_def)
  have e2: "evaluate_comparison py test_object_extended ''garbage'' =
      Inl (InvalidExpressionFormat ''garbage'')"
    by (simp add: evaluate_comparison_def m2)
  show ?thesis
    using c by (simp add: test_def Let_def sp e1 e2 evaluate_part_def index_def enumerate_eq_zip)
qed

section \<open>Comparisons\<close>











section \<open>Value literals\<close>

lemma evaluated_value_fragment:
  "eval_fragment v = Evaluated x \<Longrightarrow> evaluated_value py v = Known x"
  "eval_fragment v = EvalRaises \<Longrightarrow> evaluated_value py v = Known (LStr v)"
  by (simp_all add: evaluated_value_def py_eval_def)

lemma null_is_a_string_any:
  "evaluated_value py ''null'' = Known (LStr ''null'') \<and>
   test py \<lparr>args = ''$.x == null''\<rparr> (PDict [(''x'', PNone)]) = Inr False"
proof -
  have "eval_fragment ''null'' = EvalRaises"
    by code_simp
  moreover have "test py \<lparr>args = ''$.x == null''\<rparr> (PDict [(''x'', PNone)]) = Inr False"
    by code_simp
  ultimately show ?thesis
    by (simp add: evaluated_value_fragment)
qed

text \<open>
  Claim C6, as it fails: \<open>null\<close> is an undefined name, so the literal is the string
  \<open>null\<close>, and a field holding \<open>None\<close> does not equal it.
\<close>

theorem null_is_a_string:
  "evaluated_value fragment_only ''null'' = Known (LStr ''null'') \<and>
   test fragment_only \<lparr>args = ''$.x == null''\<rparr> (PDict [(''x'', PNone)]) = Inr False"
  by (rule null_is_a_string_any)

text \<open>
  Claim C6, amended. The token \<open>None\<close> is the null literal; the token \<open>null\<close> is not:
  it is kept as the string \<open>null\<close>.
\<close>

theorem none_token_is_null:
  "evaluated_value py ''None'' = Known LNone \<and>
   evaluated_value py ''null'' \<noteq> Known LNone \<and>
   test py \<lparr>args = ''$.x == None''\<rparr> (PDict [(''x'', PNone)]) = Inr True \<and>
   test py \<lparr>args = ''$.x == null''\<rparr> (PDict [(''x'', PStr ''null'')]) = Inr True"
proof -
  have "eval_fragment ''None'' = Evaluated LNone" "eval_fragment ''null'' = EvalRaises"
    by code_simp+
  moreover have "test py \<lparr>args = ''$.x == None''\<rparr> (PDict [(''x'', PNone)]) = Inr True"
    by code_simp
  moreover have
    "test py \<lparr>args = ''$.x == null''\<rparr> (PDict [(''x'', PStr ''null'')]) = Inr True"
    by code_simp
  ultimately show ?thesis
    by (simp add: evaluated_value_fragment)
qed

section \<open>Evaluations of the notebook\<close>

text \<open>
  Claim C1. On the last test of the notebook the first clause is true, the second
  false and the third true; the loop leaves at the false \<open>AND\<close> and \<open>test\<close> returns
  false, where \<open>(A AND B) OR C\<close> is true.
\<close>

theorem and_then_or_breaks_early:
  \<open>evaluate_comparison py test_object_extended ''$.foo == "some value"'' = Inr True \<and>
   evaluate_comparison py test_object_extended ''$.role == "admin"'' = Inr False \<and>
   evaluate_comparison py test_object_extended ''$.count > 5'' = Inr True \<and>
   test py \<lparr>args = ''$.foo == "some value" AND $.role == "admin" OR $.count > 5''\<rparr>
     test_object_extended = Inr False\<close>
  by code_simp

text \<open>
  Claim C2. The alternation tries \<open>>\<close> before \<open>>=\<close>: the clause \<open>$.count >= 5\<close> is read as
  the operator \<open>>\<close> with the value text \<open>= 5\<close>, and comparing the number 10 with that
  string raises \<open>TypeError\<close>.
\<close>

theorem two_character_operators_cut_short:
  "match_pattern ''$.count >= 5'' = Some (''count'', ''>'', ''= 5'') \<and>
   match_pattern ''$.count <= 5'' = Some (''count'', ''<'', ''= 5'') \<and>
   test py \<lparr>args = ''$.count >= 5''\<rparr> test_object_extended = Inl TypeError \<and>
   test py \<lparr>args = ''$.count > 5''\<rparr> test_object_extended = Inr True"
  by code_simp

section \<open>The value text that does not evaluate\<close>












section \<open>The operators that the pattern can return\<close>

text \<open>Whatever the clause, the alternation never returns \<open>>=\<close> or \<open><=\<close>: after \<open>>\<close> or
  \<open><\<close> the character \<open>=\<close> already starts the value.\<close>

lemma match_operator_one_branch:
  "match_operator alternatives r = Some (op, v) \<Longrightarrow> op \<in> set [''=='', ''!='', ''>'', ''<'']"
  apply (cases r)
   apply (simp add: alternatives_def match_value_def split: if_splits option.splits)
  subgoal for c cs
    apply (cases cs)
     apply (auto simp add: alternatives_def match_value_def is_space_def code_def Let_def
        split: if_splits option.splits)
    done
  done

end
